theory Spec2Isabelle
  imports Main "HOL-Library.Sublist"
begin

section \<open>The captive portal page of \<^verbatim>\<open>src/esp32_stt/wifi_portal.h\<close>\<close>

text \<open>
  The header holds one constant, \<^verbatim>\<open>PORTAL_HTML\<close>: a page with a form (scan button,
  network list, SSID and password inputs, submit button), two banners, and a script with two
  handlers, \<^verbatim>\<open>scanNetworks\<close> and \<^verbatim>\<open>configForm.onsubmit\<close>. The script is modelled
  here: the values it receives from \<^verbatim>\<open>response.json()\<close>, the page elements it reads and
  writes, and each handler as a function from page state to page state.

  Strings are byte lists holding the UTF-8 text of the header. The script only concatenates
  strings and tests them for emptiness, which does not depend on the encoding.
\<close>

subsection \<open>Values returned by \<^verbatim>\<open>response.json()\<close>\<close>

text \<open>
  A parsed JSON value. The number type is left open: how the browser represents, prints and
  compares numbers is not part of the page. A property read that finds nothing yields
  \<^verbatim>\<open>undefined\<close>, which is \<open>None\<close> in a \<open>json option\<close>.
\<close>

datatype 'n json =
    JNull
  | JBool bool
  | JNum 'n
  | JStr string
  | JArr "'n json list"
  | JObj "(string \<times> 'n json) list"

datatype error = TypeError

text \<open>
  The operations of the script engine on numbers that the handlers reach:
  \<open>num_str\<close> is the conversion of a number to a string (in \<^verbatim>\<open>network.rssi + ' dBm'\<close>),
  \<open>num_truthy\<close> the conversion of a number to a boolean (in \<^verbatim>\<open>if (result.success)\<close>),
  and \<open>gt_zero\<close> the comparison \<^verbatim>\<open>v > 0\<close> of an arbitrary parsed value, which the
  script reaches only when \<^verbatim>\<open>data.networks\<close> is an object that has a property named
  \<^verbatim>\<open>length\<close> of its own.
\<close>

record 'n platform =
  num_str :: "'n \<Rightarrow> string"
  num_truthy :: "'n \<Rightarrow> bool"
  gt_zero :: "'n json \<Rightarrow> error + bool"

text \<open>Own properties of a parsed object; a later duplicate key overrides an earlier one.\<close>

definition obj_get :: "(string \<times> 'n json) list \<Rightarrow> string \<Rightarrow> 'n json option" where
  "obj_get kvs k = map_of (rev kvs) k"

text \<open>
  The property read \<^verbatim>\<open>v.k\<close>, for the names the handlers read from parsed data
  (\<^verbatim>\<open>networks\<close>, \<^verbatim>\<open>success\<close>, \<^verbatim>\<open>message\<close>, \<^verbatim>\<open>ssid\<close>, \<^verbatim>\<open>rssi\<close>): none of
  them is defined by a built-in prototype, so only an object can have one. Reading a
  property of \<^verbatim>\<open>null\<close> throws.
\<close>

fun js_get :: "'n json \<Rightarrow> string \<Rightarrow> error + 'n json option" where
  "js_get JNull k = Inl TypeError"
| "js_get (JObj kvs) k = Inr (obj_get kvs k)"
| "js_get v k = Inr None"

text \<open>The conversion to a boolean made by \<^verbatim>\<open>if\<close>, \<^verbatim>\<open>&&\<close> and \<^verbatim>\<open>||\<close>.\<close>

fun truthy :: "'n platform \<Rightarrow> 'n json option \<Rightarrow> bool" where
  "truthy P None = False"
| "truthy P (Some JNull) = False"
| "truthy P (Some (JBool b)) = b"
| "truthy P (Some (JNum n)) = num_truthy P n"
| "truthy P (Some (JStr s)) = (s \<noteq> [])"
| "truthy P (Some (JArr xs)) = True"
| "truthy P (Some (JObj kvs)) = True"

text \<open>
  The conversion to a string made by \<^verbatim>\<open>+\<close> with a string operand. An array is joined
  with commas, \<^verbatim>\<open>null\<close> elements printing as nothing. An object prints as
  \<^verbatim>\<open>[object Object]\<close> through the inherited \<^verbatim>\<open>toString\<close>; parsed data that has a
  \<^verbatim>\<open>toString\<close> property of its own hides it with a value that cannot be called, and the
  conversion throws.
\<close>

fun to_string :: "'n platform \<Rightarrow> 'n json \<Rightarrow> error + string"
  and join :: "'n platform \<Rightarrow> 'n json list \<Rightarrow> error + string"
  and join_elem :: "'n platform \<Rightarrow> 'n json \<Rightarrow> error + string" where
  "to_string P JNull = Inr ''null''"
| "to_string P (JBool b) = Inr (if b then ''true'' else ''false'')"
| "to_string P (JNum n) = Inr (num_str P n)"
| "to_string P (JStr s) = Inr s"
| "to_string P (JArr xs) = join P xs"
| "to_string P (JObj kvs) =
     (if obj_get kvs ''toString'' = None then Inr ''[object Object]'' else Inl TypeError)"
| "join P [] = Inr []"
| "join P [x] = join_elem P x"
| "join P (x # y # ys) =
     (case join_elem P x of
        Inl e \<Rightarrow> Inl e
      | Inr s \<Rightarrow> (case join P (y # ys) of Inl e \<Rightarrow> Inl e | Inr t \<Rightarrow> Inr (s @ '','' @ t)))"
| "join_elem P JNull = Inr []"
| "join_elem P (JBool b) = to_string P (JBool b)"
| "join_elem P (JNum n) = to_string P (JNum n)"
| "join_elem P (JStr s) = to_string P (JStr s)"
| "join_elem P (JArr xs) = to_string P (JArr xs)"
| "join_elem P (JObj kvs) = to_string P (JObj kvs)"

definition to_string_opt :: "'n platform \<Rightarrow> 'n json option \<Rightarrow> error + string" where
  "to_string_opt P v = (case v of None \<Rightarrow> Inr ''undefined'' | Some j \<Rightarrow> to_string P j)"


subsection \<open>The outcome of a request\<close>

text \<open>
  \<^verbatim>\<open>fetch(...).then(response => response.json())\<close> is a promise of a parsed value. It may
  stay pending for ever (the page sets no timeout), be rejected by \<^verbatim>\<open>fetch\<close> (network
  error) or by \<^verbatim>\<open>response.json()\<close> (the body is not JSON), or be fulfilled with the
  parsed body. The HTTP status is not looked at.
\<close>

datatype reject = NetworkError | SyntaxError

datatype 'a promise = Pending | Rejected reject | Fulfilled 'a

subsection \<open>The page\<close>

text \<open>
  The texts of the page, as UTF-8 bytes: the two labels of the scan button (lines 135, 160,
  180, 184), the placeholder of the network list (line 178), and the text of the error banner
  (lines 153, 205), which is a cross mark, a space and a label.
\<close>

definition SCAN_LABEL :: string where
  "SCAN_LABEL = ''WiFi'' @ [CHR 0xE3, CHR 0x82, CHR 0x92, CHR 0xE3, CHR 0x82, CHR 0xB9,
     CHR 0xE3, CHR 0x82, CHR 0xAD, CHR 0xE3, CHR 0x83, CHR 0xA3, CHR 0xE3, CHR 0x83, CHR 0xB3]"

definition SCANNING_LABEL :: string where
  "SCANNING_LABEL = [CHR 0xE3, CHR 0x82, CHR 0xB9, CHR 0xE3, CHR 0x82, CHR 0xAD,
     CHR 0xE3, CHR 0x83, CHR 0xA3, CHR 0xE3, CHR 0x83, CHR 0xB3, CHR 0xE4, CHR 0xB8, CHR 0xAD]
     @ ''...''"

definition NOT_FOUND_LABEL :: string where
  "NOT_FOUND_LABEL = [CHR 0xE8, CHR 0xA6, CHR 0x8B, CHR 0xE3, CHR 0x81, CHR 0xA4,
     CHR 0xE3, CHR 0x81, CHR 0x8B, CHR 0xE3, CHR 0x82, CHR 0x8A, CHR 0xE3, CHR 0x81, CHR 0xBE,
     CHR 0xE3, CHR 0x81, CHR 0x9B, CHR 0xE3, CHR 0x82, CHR 0x93]"

definition CROSS_MARK :: string where
  "CROSS_MARK = [CHR 0xE2, CHR 0x9D, CHR 0x8C] @ '' ''"

definition ERROR_LABEL :: string where
  "ERROR_LABEL = [CHR 0xE3, CHR 0x82, CHR 0xA8, CHR 0xE3, CHR 0x83, CHR 0xA9,
     CHR 0xE3, CHR 0x83, CHR 0xBC]"

text \<open>
  A child of the network list. \<open>innerHTML\<close> is the markup string the script assigns; what
  the browser renders from it is not modelled. \<open>onclick\<close> is the handler of line 174, an
  arrow function closed over \<^verbatim>\<open>network\<close>: it is represented by the captured value, and
  \<open>None\<close> is an element without a handler.
\<close>

record 'n item =
  className :: string
  innerHTML :: string
  onclick :: "'n json option"

text \<open>
  The elements the script reads or writes, one field for each property it touches. A field
  holds the string the script assigned; what the browser makes of it afterwards (parsing
  markup, normalising the value of an input) is outside the model.
  \<open>networks_children\<close> is the content of \<^verbatim>\<open>div#networks\<close>; a \<open>display\<close> field is
  the inline \<^verbatim>\<open>style.display\<close>, empty until the script sets it.
\<close>

record 'n dom =
  btn_textContent :: string
  btn_disabled :: bool
  networks_children :: "'n item list"
  networks_display :: string
  ssid_value :: string
  password_value :: string
  success_display :: string
  error_display :: string
  error_textContent :: string

text \<open>The page as loaded (lines 134 to 153).\<close>

definition initial_dom :: "'n dom" where
  "initial_dom = \<lparr> btn_textContent = SCAN_LABEL, btn_disabled = False,
     networks_children = [], networks_display = [],
     ssid_value = [], password_value = [],
     success_display = [], error_display = [],
     error_textContent = CROSS_MARK @ ERROR_LABEL \<rparr>"

text \<open>
  Both banners and the network list have \<^verbatim>\<open>display: none\<close> in the style sheet (lines 97,
  116, 125), so one is on screen exactly when its inline display has been set to
  \<^verbatim>\<open>block\<close>, the only other value the script assigns.
\<close>

definition visible :: "string \<Rightarrow> bool" where
  "visible display = (display = ''block'')"

subsection \<open>\<^verbatim>\<open>scanNetworks\<close> (lines 157 to 187)\<close>

text \<open>Lines 160 and 161, run when the function is called; the request follows.\<close>

definition scanNetworks_start :: "'n dom \<Rightarrow> 'n dom" where
  "scanNetworks_start d = d\<lparr> btn_textContent := SCANNING_LABEL, btn_disabled := True \<rparr>"

text \<open>
  Lines 171 to 174: the row made for one element of the array. Reading \<^verbatim>\<open>network.ssid\<close>
  or converting a property to a string may throw, before the row is appended.
\<close>

definition row_markup :: "string \<Rightarrow> string \<Rightarrow> string" where
  "row_markup ssid rssi = ''<span>'' @ ssid @ ''</span><span class='' @ [CHR 0x22] @ ''signal''
     @ [CHR 0x22] @ ''>'' @ rssi @ '' dBm</span>''"

definition make_item :: "'n platform \<Rightarrow> 'n json \<Rightarrow> error + 'n item" where
  "make_item P network =
     (case js_get network ''ssid'' of
        Inl e \<Rightarrow> Inl e
      | Inr ssid \<Rightarrow>
          (case to_string_opt P ssid of
             Inl e \<Rightarrow> Inl e
           | Inr s \<Rightarrow>
               (case js_get network ''rssi'' of
                  Inl e \<Rightarrow> Inl e
                | Inr rssi \<Rightarrow>
                    (case to_string_opt P rssi of
                       Inl e \<Rightarrow> Inl e
                     | Inr r \<Rightarrow> Inr \<lparr> className = ''network-item'',
                                      innerHTML = row_markup s r,
                                      onclick = Some network \<rparr>))))"

text \<open>
  Lines 170 to 176, \<^verbatim>\<open>forEach\<close> over the elements: each row is appended as it is made, so
  the rows made before an exception stay in the list. The first component of the result is
  the exception thrown, if any.
\<close>

fun forEach_network :: "'n platform \<Rightarrow> 'n json list \<Rightarrow> 'n dom \<Rightarrow> error option \<times> 'n dom" where
  "forEach_network P [] d = (None, d)"
| "forEach_network P (network # rest) d =
     (case make_item P network of
        Inl e \<Rightarrow> (Some e, d)
      | Inr it \<Rightarrow>
          forEach_network P rest (d\<lparr> networks_children := networks_children d @ [it] \<rparr>))"

text \<open>
  \<^verbatim>\<open>data.networks.length > 0\<close>, evaluated when \<^verbatim>\<open>data.networks\<close> is truthy. Arrays and
  strings have a length; booleans and numbers have none, and \<^verbatim>\<open>undefined > 0\<close> is false;
  an object has the property only as its own.
\<close>

fun length_gt_zero :: "'n platform \<Rightarrow> 'n json option \<Rightarrow> error + bool" where
  "length_gt_zero P None = Inl TypeError"
| "length_gt_zero P (Some JNull) = Inl TypeError"
| "length_gt_zero P (Some (JBool b)) = Inr False"
| "length_gt_zero P (Some (JNum n)) = Inr False"
| "length_gt_zero P (Some (JStr s)) = Inr (0 < length s)"
| "length_gt_zero P (Some (JArr xs)) = Inr (0 < length xs)"
| "length_gt_zero P (Some (JObj kvs)) =
     (case obj_get kvs ''length'' of None \<Rightarrow> Inr False | Some v \<Rightarrow> gt_zero P v)"

text \<open>The condition of line 169.\<close>

definition has_networks :: "'n platform \<Rightarrow> 'n json option \<Rightarrow> error + bool" where
  "has_networks P nets = (if truthy P nets then length_gt_zero P nets else Inr False)"

text \<open>
  \<^verbatim>\<open>data.networks.forEach(...)\<close>: only an array has the method; on a string or an
  object of parsed data the call throws.
\<close>

definition call_forEach :: "'n platform \<Rightarrow> 'n json option \<Rightarrow> 'n dom \<Rightarrow> error option \<times> 'n dom" where
  "call_forEach P nets d =
     (case nets of Some (JArr xs) \<Rightarrow> forEach_network P xs d | _ \<Rightarrow> (Some TypeError, d))"

text \<open>
  The placeholder of line 178: the literal markup is one \<^verbatim>\<open>div\<close> of class
  \<^verbatim>\<open>network-item\<close> holding the text, with no handler.
\<close>

definition placeholder :: "'n item" where
  "placeholder = \<lparr> className = ''network-item'', innerHTML = NOT_FOUND_LABEL, onclick = None \<rparr>"

definition reset_btn :: "'n dom \<Rightarrow> 'n dom" where
  "reset_btn d = d\<lparr> btn_textContent := SCAN_LABEL, btn_disabled := False \<rparr>"

text \<open>
  Lines 165 to 182, the handler of the parsed body. An exception leaves it at once, with the
  assignments made so far in place.
\<close>

definition scanNetworks_then :: "'n platform \<Rightarrow> 'n json \<Rightarrow> 'n dom \<Rightarrow> error option \<times> 'n dom" where
  "scanNetworks_then P data d =
     (let d1 = d\<lparr> networks_children := [], networks_display := ''block'' \<rparr> in
      case js_get data ''networks'' of
        Inl e \<Rightarrow> (Some e, d1)
      | Inr nets \<Rightarrow>
          (case has_networks P nets of
             Inl e \<Rightarrow> (Some e, d1)
           | Inr True \<Rightarrow>
               (case call_forEach P nets d1 of
                  (Some e, d2) \<Rightarrow> (Some e, d2)
                | (None, d2) \<Rightarrow> (None, reset_btn d2))
           | Inr False \<Rightarrow>
               (None, reset_btn (d1\<lparr> networks_children := [placeholder] \<rparr>))))"

text \<open>Lines 183 to 186.\<close>

definition scanNetworks_catch :: "'n dom \<Rightarrow> 'n dom" where
  "scanNetworks_catch d = reset_btn d"

text \<open>
  The promise chain of lines 163 to 186: nothing runs while the promise is pending; a
  rejection, or an exception thrown by the handler of the body, runs the \<^verbatim>\<open>catch\<close>.
\<close>

definition scanNetworks_settle :: "'n platform \<Rightarrow> 'n json promise \<Rightarrow> 'n dom \<Rightarrow> 'n dom" where
  "scanNetworks_settle P p d =
     (case p of
        Pending \<Rightarrow> d
      | Rejected r \<Rightarrow> scanNetworks_catch d
      | Fulfilled data \<Rightarrow>
          (case scanNetworks_then P data d of
             (Some e, d') \<Rightarrow> scanNetworks_catch d'
           | (None, d') \<Rightarrow> d'))"


subsection \<open>\<^verbatim>\<open>configForm.onsubmit\<close> (lines 189 to 210)\<close>

text \<open>The body of the request, lines 194 to 197.\<close>

record credentials =
  ssid :: string
  password :: string





subsection \<open>The page in use\<close>











subsection \<open>Well-formed responses\<close>

text \<open>
  A network of the scan response as the interface describes it: an object with a string
  \<^verbatim>\<open>ssid\<close> and a number \<^verbatim>\<open>rssi\<close>.
\<close>

fun ssid_of :: "'n json \<Rightarrow> string option" where
  "ssid_of (JObj kvs) = (case obj_get kvs ''ssid'' of Some (JStr s) \<Rightarrow> Some s | _ \<Rightarrow> None)"
| "ssid_of v = None"

fun rssi_of :: "'n json \<Rightarrow> 'n option" where
  "rssi_of (JObj kvs) = (case obj_get kvs ''rssi'' of Some (JNum r) \<Rightarrow> Some r | _ \<Rightarrow> None)"
| "rssi_of v = None"

definition wf_network :: "'n json \<Rightarrow> bool" where
  "wf_network n = (ssid_of n \<noteq> None \<and> rssi_of n \<noteq> None)"

text \<open>
  The row a well-formed network is to be shown as: an element of class
  \<^verbatim>\<open>network-item\<close> whose markup holds the SSID and the printed RSSI, and whose click
  handler is bound to the network.
\<close>

definition network_row :: "'n platform \<Rightarrow> 'n json \<Rightarrow> 'n item" where
  "network_row P n = \<lparr> className = ''network-item'',
     innerHTML = row_markup (the (ssid_of n)) (num_str P (the (rssi_of n))),
     onclick = Some n \<rparr>"

subsection \<open>Concrete inputs\<close>

text \<open>
  An instance of the platform for running the handlers on concrete inputs: numbers are
  integers, printed in decimal. Its \<open>gt_zero\<close> answers for numbers and booleans; the inputs
  below do not reach it.
\<close>

fun dec_digits :: "nat \<Rightarrow> string" where
  "dec_digits n =
     (if n < 10 then [''0123456789'' ! n]
      else dec_digits (n div 10) @ [''0123456789'' ! (n mod 10)])"

declare dec_digits.simps [simp del]

definition dec_of_int :: "int \<Rightarrow> string" where
  "dec_of_int i = (if i < 0 then ''-'' @ dec_digits (nat (- i)) else dec_digits (nat i))"

definition int_platform :: "int platform" where
  "int_platform = \<lparr> num_str = dec_of_int, num_truthy = (\<lambda>n. n \<noteq> 0),
     gt_zero = (\<lambda>v. case v of JNum n \<Rightarrow> Inr (0 < n) | JBool b \<Rightarrow> Inr b | _ \<Rightarrow> Inr False) \<rparr>"

definition home_net :: "int json" where
  "home_net = JObj [(''ssid'', JStr ''home''), (''rssi'', JNum (- 42))]"

definition cafe_net :: "int json" where
  "cafe_net = JObj [(''ssid'', JStr ''cafe''), (''rssi'', JNum (- 70))]"

definition two_networks :: "int json" where
  "two_networks = JObj [(''networks'', JArr [home_net, cafe_net])]"

definition guest_net :: "int json" where
  "guest_net = JObj [(''ssid'', JStr ''<guest>''), (''rssi'', JNum (- 42))]"

definition guest_scan :: "int json" where
  "guest_scan = JObj [(''networks'', JArr [guest_net])]"




subsection \<open>Predicates used in the properties\<close>



section \<open>Properties\<close>

subsection \<open>Auxiliary facts\<close>

lemma forEach_network_frame:
  "forEach_network P xs d = (r, d') \<Longrightarrow> d' = d\<lparr> networks_children := networks_children d' \<rparr>"
proof (induction xs arbitrary: d)
  case Nil
  then show ?case by simp
next
  case (Cons x xs)
  show ?case
  proof (cases "make_item P x")
    case (Inl e)
    with Cons.prems show ?thesis by simp
  next
    case (Inr it)
    with Cons.prems have "forEach_network P xs (d\<lparr> networks_children := networks_children d @ [it] \<rparr>) = (r, d')"
      by simp
    from Cons.IH [OF this] show ?thesis
      by (cases d, cases d') simp
  qed
qed

lemma make_item_wf:
  assumes "wf_network n"
  shows "make_item P n = Inr (network_row P n)"
proof -
  from assms obtain kvs where n: "n = JObj kvs"
    by (cases n) (simp_all add: wf_network_def)
  from assms n obtain s where s: "obj_get kvs ''ssid'' = Some (JStr s)"
    by (auto simp: wf_network_def split: option.splits json.splits)
  from assms n obtain r where r: "obj_get kvs ''rssi'' = Some (JNum r)"
    by (auto simp: wf_network_def split: option.splits json.splits)
  show ?thesis
    by (simp add: n s r make_item_def network_row_def to_string_opt_def)
qed

lemma forEach_network_wf:
  "\<forall>n \<in> set ns. wf_network n \<Longrightarrow>
   forEach_network P ns d = (None, d\<lparr> networks_children := networks_children d @ map (network_row P) ns \<rparr>)"
proof (induction ns arbitrary: d)
  case Nil
  then show ?case by simp
next
  case (Cons n ns)
  then show ?case by (simp add: make_item_wf)
qed

lemma scanNetworks_then_btn:
  "scanNetworks_then P data d = (None, d') \<Longrightarrow> btn_textContent d' = SCAN_LABEL \<and> \<not> btn_disabled d'"
  by (auto simp: scanNetworks_then_def reset_btn_def Let_def split: sum.splits bool.splits prod.splits option.splits)

lemma scanNetworks_settle_btn:
  "p \<noteq> Pending \<Longrightarrow> btn_textContent (scanNetworks_settle P p d) = SCAN_LABEL \<and> \<not> btn_disabled (scanNetworks_settle P p d)"
  by (cases p) (auto simp: scanNetworks_settle_def scanNetworks_catch_def reset_btn_def dest: scanNetworks_then_btn split: prod.splits option.splits)

lemma dec_of_int_examples: "dec_of_int (- 42) = ''-42''" "dec_of_int (- 70) = ''-70''"
  by (simp_all add: dec_of_int_def dec_digits.simps)

lemma wf_examples: "wf_network home_net" "wf_network cafe_net"
  by (simp_all add: wf_network_def home_net_def cafe_net_def obj_get_def)

lemma scanNetworks_then_frame:
  assumes "scanNetworks_then P data d = (r, d')"
  shows "ssid_value d' = ssid_value d \<and> password_value d' = password_value d
       \<and> success_display d' = success_display d \<and> error_display d' = error_display d
       \<and> error_textContent d' = error_textContent d"
proof -
  let ?d1 = "d\<lparr> networks_children := [], networks_display := ''block'' \<rparr>"
  have loop: "ssid_value d2 = ssid_value d \<and> password_value d2 = password_value d
       \<and> success_display d2 = success_display d \<and> error_display d2 = error_display d
       \<and> error_textContent d2 = error_textContent d"
    if cf: "call_forEach P nets ?d1 = (r2, d2)" for nets r2 d2
  proof (cases "\<exists>xs. nets = Some (JArr xs)")
    case True
    then obtain xs where "forEach_network P xs ?d1 = (r2, d2)"
      using cf by (auto simp: call_forEach_def)
    from forEach_network_frame [OF this] show ?thesis
      by (cases d2) auto
  next
    case False
    with cf have "d2 = ?d1"
      by (auto simp: call_forEach_def split: option.splits json.splits)
    then show ?thesis by simp
  qed
  from assms show ?thesis
    by (auto simp: scanNetworks_then_def reset_btn_def Let_def dest!: loop
        split: sum.splits bool.splits prod.splits option.splits if_splits)
qed








subsection \<open>The response to \<^verbatim>\<open>/save\<close>\<close>










subsection \<open>The response to \<^verbatim>\<open>/scan\<close>\<close>

text \<open>
  The rows the handler makes. When the parsed body of the \<^verbatim>\<open>/scan\<close> response has a
  \<^verbatim>\<open>networks\<close> array of N well-formed entries, N at least 1, the handler leaves exactly
  N rows in the network list, in the order of the array; the row of an entry has a click
  handler bound to that entry, and the string assigned to its \<^verbatim>\<open>innerHTML\<close> holds the
  entry's SSID and its printed RSSI as they are, spliced between the tags.
\<close>

lemma scanNetworks_rows:
  assumes "js_get data ''networks'' = Inr (Some (JArr ns))"
    and "1 \<le> length ns"
    and "\<forall>n \<in> set ns. wf_network n"
  shows "networks_children (scanNetworks_settle P (Fulfilled data) d) = map (network_row P) ns
       \<and> length (networks_children (scanNetworks_settle P (Fulfilled data) d)) = length ns
       \<and> visible (networks_display (scanNetworks_settle P (Fulfilled data) d))
       \<and> (\<forall>i < length ns.
            onclick (networks_children (scanNetworks_settle P (Fulfilled data) d) ! i)
              = Some (ns ! i)
          \<and> sublist (the (ssid_of (ns ! i)))
              (innerHTML (networks_children (scanNetworks_settle P (Fulfilled data) d) ! i))
          \<and> sublist (num_str P (the (rssi_of (ns ! i))))
              (innerHTML (networks_children (scanNetworks_settle P (Fulfilled data) d) ! i)))"
proof -
  let ?d1 = "d\<lparr> networks_children := [], networks_display := ''block'' \<rparr>"
  from assms(2) have ne: "ns \<noteq> []" by auto
  have loop: "forEach_network P ns ?d1
      = (None, ?d1\<lparr> networks_children := map (network_row P) ns \<rparr>)"
    using forEach_network_wf [OF assms(3), of P ?d1] by simp
  have rows: "networks_children (scanNetworks_settle P (Fulfilled data) d)
      = map (network_row P) ns"
    using assms(1) ne loop
    by (simp add: scanNetworks_settle_def scanNetworks_then_def has_networks_def
        call_forEach_def reset_btn_def)
  have shown: "visible (networks_display (scanNetworks_settle P (Fulfilled data) d))"
    using assms(1) ne loop
    by (simp add: scanNetworks_settle_def scanNetworks_then_def has_networks_def
        call_forEach_def reset_btn_def visible_def)
  have ssid_shown: "sublist s (row_markup s r)" for s r :: string
    unfolding row_markup_def by (rule sublist_appendI [of s "''<span>''"])
  have rssi_shown: "sublist r (row_markup s r)" for s r :: string
  proof -
    have "row_markup s r = (''<span>'' @ s @ ''</span><span class='' @ [CHR 0x22] @ ''signal''
       @ [CHR 0x22] @ ''>'') @ r @ '' dBm</span>''"
      by (simp add: row_markup_def)
    then show ?thesis by (simp only: sublist_appendI)
  qed
  show ?thesis
    using rows shown by (simp add: network_row_def ssid_shown rssi_shown)
qed

lemma scanNetworks_rows_example:
  "js_get two_networks ''networks'' = Inr (Some (JArr [home_net, cafe_net]))
   \<and> 1 \<le> length [home_net, cafe_net]
   \<and> wf_network home_net \<and> wf_network cafe_net
   \<and> networks_children (scanNetworks_settle int_platform (Fulfilled two_networks) initial_dom)
      = [\<lparr> className = ''network-item'', innerHTML = row_markup ''home'' ''-42'',
            onclick = Some home_net \<rparr>,
         \<lparr> className = ''network-item'', innerHTML = row_markup ''cafe'' ''-70'',
            onclick = Some cafe_net \<rparr>]"
proof -
  have a: "js_get two_networks ''networks'' = Inr (Some (JArr [home_net, cafe_net]))"
    by (simp add: two_networks_def obj_get_def)
  have b: "1 \<le> length [home_net, cafe_net]" by simp
  have c: "\<forall>n \<in> set [home_net, cafe_net]. wf_network n"
    by (simp add: wf_examples)
  have r: "network_row int_platform home_net
             = \<lparr> className = ''network-item'', innerHTML = row_markup ''home'' ''-42'',
                 onclick = Some home_net \<rparr>"
          "network_row int_platform cafe_net
             = \<lparr> className = ''network-item'', innerHTML = row_markup ''cafe'' ''-70'',
                 onclick = Some cafe_net \<rparr>"
    by (simp_all add: network_row_def int_platform_def dec_of_int_examples home_net_def
        cafe_net_def obj_get_def)
  from scanNetworks_rows [OF a b c, of int_platform initial_dom] a wf_examples r
  show ?thesis by simp
qed

text \<open>
  Claim C3. The handler leaves one row for each network, but a row does not display the
  SSID of every well-formed entry: line 173 joins \<^verbatim>\<open>network.ssid\<close> into the markup of the
  row without escaping it, where line 205 stores the text of a message with
  \<^verbatim>\<open>textContent\<close>. For the response with the one network of SSID \<^verbatim>\<open><guest>\<close> and RSSI
  -42, the handler leaves one row with a click handler, and the markup assigned to it is
  \<^verbatim>\<open><span><guest></span><span class="signal">-42 dBm</span>\<close>: the SSID stands there as a
  tag, which a browser parses as an element and does not show as text.
\<close>

theorem scan_row_markup_not_escaped:
  "ssid_of guest_net = Some ''<guest>''
   \<and> rssi_of guest_net = Some (- 42)
   \<and> js_get guest_scan ''networks'' = Inr (Some (JArr [guest_net]))
   \<and> networks_children (scanNetworks_settle int_platform (Fulfilled guest_scan) initial_dom)
      = [\<lparr> className = ''network-item'',
            innerHTML = ''<span><guest></span><span class='' @ [CHR 0x22] @ ''signal''
              @ [CHR 0x22] @ ''>-42 dBm</span>'',
            onclick = Some guest_net \<rparr>]"
proof -
  have a: "js_get guest_scan ''networks'' = Inr (Some (JArr [guest_net]))"
    by (simp add: guest_scan_def obj_get_def)
  have s: "ssid_of guest_net = Some ''<guest>''" and r: "rssi_of guest_net = Some (- 42)"
    by (simp_all add: guest_net_def obj_get_def)
  have w: "\<forall>n \<in> set [guest_net]. wf_network n"
    by (simp add: wf_network_def s r)
  have "networks_children (scanNetworks_settle int_platform (Fulfilled guest_scan) initial_dom)
      = map (network_row int_platform) [guest_net]"
    using scanNetworks_rows [OF a _ w, of int_platform initial_dom] by simp
  then show ?thesis
    using a s r
    by (simp add: network_row_def row_markup_def int_platform_def dec_of_int_examples)
qed

text \<open>
  Claim C9. When the parsed body of the \<^verbatim>\<open>/scan\<close> response is an object whose
  \<^verbatim>\<open>networks\<close> is absent or the empty array, the handler leaves exactly one row in the
  network list, the placeholder saying that nothing was found.
\<close>

theorem scan_without_networks_shows_placeholder:
  assumes "data = JObj kvs"
    and "obj_get kvs ''networks'' = None \<or> obj_get kvs ''networks'' = Some (JArr [])"
  shows "networks_children (scanNetworks_settle P (Fulfilled data) d) = [placeholder]
       \<and> visible (networks_display (scanNetworks_settle P (Fulfilled data) d))"
  using assms
  by (auto simp: scanNetworks_settle_def scanNetworks_then_def has_networks_def
      reset_btn_def visible_def)

theorem scan_without_networks_shows_placeholder_witness:
  "obj_get ([(''networks'', JArr [])] :: (string \<times> int json) list) ''networks'' = Some (JArr [])
   \<and> networks_children (scanNetworks_settle int_platform
        (Fulfilled (JObj [(''networks'', JArr [])])) initial_dom)
      = [\<lparr> className = ''network-item'', innerHTML = NOT_FOUND_LABEL, onclick = None \<rparr>]
   \<and> obj_get ([] :: (string \<times> int json) list) ''networks'' = None
   \<and> networks_children (scanNetworks_settle int_platform (Fulfilled (JObj [])) initial_dom)
      = [\<lparr> className = ''network-item'', innerHTML = NOT_FOUND_LABEL, onclick = None \<rparr>]"
  using scan_without_networks_shows_placeholder
      [of "JObj [(''networks'', JArr [])]" "[(''networks'', JArr [])]" int_platform initial_dom]
    scan_without_networks_shows_placeholder [of "JObj []" "[]" int_platform initial_dom]
  by (simp add: obj_get_def placeholder_def)



text \<open>
  Claim C7. When the \<^verbatim>\<open>/scan\<close> request fails, the scan button is enabled again with its
  idle label and no error is shown. For a rejection (network error or a body that is not
  JSON) nothing else on the page changes. For a parsed body on which the handler throws, the
  button is reset as well, and both banners and both inputs are as before.
\<close>

theorem scan_failure_resets_button_silently:
  "scanNetworks_settle P (Rejected r) d
     = d\<lparr> btn_textContent := SCAN_LABEL, btn_disabled := False \<rparr>
   \<and> (fst (scanNetworks_then P data d) \<noteq> None \<longrightarrow>
        btn_textContent (scanNetworks_settle P (Fulfilled data) d) = SCAN_LABEL
      \<and> \<not> btn_disabled (scanNetworks_settle P (Fulfilled data) d)
      \<and> error_display (scanNetworks_settle P (Fulfilled data) d) = error_display d
      \<and> error_textContent (scanNetworks_settle P (Fulfilled data) d) = error_textContent d
      \<and> success_display (scanNetworks_settle P (Fulfilled data) d) = success_display d
      \<and> ssid_value (scanNetworks_settle P (Fulfilled data) d) = ssid_value d
      \<and> password_value (scanNetworks_settle P (Fulfilled data) d) = password_value d)"
proof -
  have rej: "scanNetworks_settle P (Rejected r) d
      = d\<lparr> btn_textContent := SCAN_LABEL, btn_disabled := False \<rparr>"
    by (simp add: scanNetworks_settle_def scanNetworks_catch_def reset_btn_def)
  obtain e d' where t: "scanNetworks_then P data d = (e, d')"
    by (cases "scanNetworks_then P data d")
  have btn: "btn_textContent (scanNetworks_settle P (Fulfilled data) d) = SCAN_LABEL
      \<and> \<not> btn_disabled (scanNetworks_settle P (Fulfilled data) d)"
    by (rule scanNetworks_settle_btn) simp
  have "e \<noteq> None \<Longrightarrow> scanNetworks_settle P (Fulfilled data) d = reset_btn d'"
    using t by (auto simp: scanNetworks_settle_def scanNetworks_catch_def)
  with scanNetworks_then_frame [OF t] t rej btn show ?thesis
    by (auto simp: reset_btn_def)
qed

theorem scan_failure_resets_button_silently_witness:
  "fst (scanNetworks_then int_platform JNull (scanNetworks_start initial_dom)) \<noteq> None
   \<and> btn_disabled (scanNetworks_start (initial_dom :: int dom))
   \<and> btn_textContent (scanNetworks_settle int_platform (Fulfilled JNull)
        (scanNetworks_start initial_dom)) = SCAN_LABEL
   \<and> \<not> btn_disabled (scanNetworks_settle int_platform (Fulfilled JNull)
        (scanNetworks_start initial_dom))
   \<and> error_display (scanNetworks_settle int_platform (Fulfilled JNull)
        (scanNetworks_start initial_dom)) = []"
  using scan_failure_resets_button_silently
    [of int_platform NetworkError "scanNetworks_start initial_dom" JNull]
  by (simp add: scanNetworks_then_def scanNetworks_start_def initial_dom_def)

subsection \<open>The page in use\<close>





end
